theory Spec2Isabelle
  imports Complex_Main
begin

section \<open>ALICE data explorer: identifiers, joins and derived metrics\<close>

text \<open>
  A shallow embedding of the reconciliation and metric code of the repository:
  \<^item> \<^verbatim>\<open>alice_tiger_integration.py\<close>: the FIPS clean-up, the left merge of county
    boundaries with ALICE rows, the name-based second pass and the summary statistics;
  \<^item> \<^verbatim>\<open>alice_data_consolidator.py\<close>: the derived percentages and the summary statistics;
  \<^item> \<^verbatim>\<open>alice_census_integration.py\<close>: the derived population counts and the mock
    demographics.

  Strings are byte lists, so the model is about ASCII identifiers and names (Python counts code
  points). Numbers are modelled by the type \<open>fl\<close> below.
\<close>

subsection \<open>Numbers of a numeric column\<close>

text \<open>
  A cell of a numeric (float64) column is a number, an infinity, or the missing value NaN.
  Finite values are exact rationals: the model keeps the special values of the arithmetic
  (what is missing, what is infinite) and the rounding rule, and leaves the representation
  error of binary64 out. Zero is the positive zero.
\<close>

datatype fl = NaN | PInf | NInf | Fin rat

text \<open>\<^verbatim>\<open>pd.isna\<close> / \<^verbatim>\<open>pd.notna\<close> on a number: only NaN is missing, an infinity is not.\<close>

fun isna :: "fl \<Rightarrow> bool" where
  "isna NaN = True"
| "isna _ = False"

definition notna :: "fl \<Rightarrow> bool" where
  "notna x = (\<not> isna x)"

text \<open>Column division \<^verbatim>\<open>a / b\<close>: no exception on a zero divisor, an infinity or NaN instead.\<close>

fun fl_div :: "fl \<Rightarrow> fl \<Rightarrow> fl" where
  "fl_div NaN _ = NaN"
| "fl_div _ NaN = NaN"
| "fl_div (Fin a) (Fin b) =
     (if b = 0 then (if a = 0 then NaN else if 0 < a then PInf else NInf) else Fin (a / b))"
| "fl_div (Fin a) PInf = Fin 0"
| "fl_div (Fin a) NInf = Fin 0"
| "fl_div PInf (Fin b) = (if 0 \<le> b then PInf else NInf)"
| "fl_div NInf (Fin b) = (if 0 \<le> b then NInf else PInf)"
| "fl_div PInf PInf = NaN"
| "fl_div PInf NInf = NaN"
| "fl_div NInf PInf = NaN"
| "fl_div NInf NInf = NaN"

fun fl_mul :: "fl \<Rightarrow> fl \<Rightarrow> fl" where
  "fl_mul NaN _ = NaN"
| "fl_mul _ NaN = NaN"
| "fl_mul (Fin a) (Fin b) = Fin (a * b)"
| "fl_mul (Fin a) PInf = (if a = 0 then NaN else if 0 < a then PInf else NInf)"
| "fl_mul (Fin a) NInf = (if a = 0 then NaN else if 0 < a then NInf else PInf)"
| "fl_mul PInf (Fin b) = (if b = 0 then NaN else if 0 < b then PInf else NInf)"
| "fl_mul NInf (Fin b) = (if b = 0 then NaN else if 0 < b then NInf else PInf)"
| "fl_mul PInf PInf = PInf"
| "fl_mul PInf NInf = NInf"
| "fl_mul NInf PInf = NInf"
| "fl_mul NInf NInf = PInf"

fun fl_add :: "fl \<Rightarrow> fl \<Rightarrow> fl" where
  "fl_add NaN _ = NaN"
| "fl_add _ NaN = NaN"
| "fl_add (Fin a) (Fin b) = Fin (a + b)"
| "fl_add (Fin a) PInf = PInf"
| "fl_add (Fin a) NInf = NInf"
| "fl_add PInf (Fin b) = PInf"
| "fl_add NInf (Fin b) = NInf"
| "fl_add PInf PInf = PInf"
| "fl_add PInf NInf = NaN"
| "fl_add NInf PInf = NaN"
| "fl_add NInf NInf = NInf"

text \<open>\<^verbatim>\<open>a < b\<close> on numbers: every comparison with NaN is false.\<close>

fun fl_less :: "fl \<Rightarrow> fl \<Rightarrow> bool" where
  "fl_less NaN _ = False"
| "fl_less _ NaN = False"
| "fl_less (Fin a) (Fin b) = (a < b)"
| "fl_less (Fin a) PInf = True"
| "fl_less (Fin a) NInf = False"
| "fl_less PInf _ = False"
| "fl_less NInf (Fin b) = True"
| "fl_less NInf PInf = True"
| "fl_less NInf NInf = False"

text \<open>
  \<^verbatim>\<open>numpy.rint\<close>: the nearest integer, a tie going to the even neighbour. The library's
  \<^verbatim>\<open>round(decimals)\<close>, which \<^verbatim>\<open>Series.round\<close> calls, scales by a power of ten, applies
  \<^verbatim>\<open>rint\<close> and scales back; NaN and the infinities pass through.
\<close>

definition rint :: "rat \<Rightarrow> int" where
  "rint x =
     (let f = \<lfloor>x\<rfloor>; d = x - of_int f
      in if d < 1 / 2 then f
         else if 1 / 2 < d then f + 1
         else if even f then f else f + 1)"

fun fl_round :: "nat \<Rightarrow> fl \<Rightarrow> fl" where
  "fl_round n (Fin x) = Fin (of_int (rint (x * 10 ^ n)) / 10 ^ n)"
| "fl_round n v = v"

subsection \<open>Region identifiers\<close>

text \<open>
  \<^verbatim>\<open>str.split('.')[0]\<close>: the text before the first point, the whole text when there is none.
\<close>

definition split_dot_first :: "string \<Rightarrow> string" where
  "split_dot_first s = takeWhile (\<lambda>c. c \<noteq> CHR ''.'') s"

text \<open>
  \<^verbatim>\<open>str.zfill(width)\<close>: a text of the width or longer is returned as it is; a shorter one
  gets zeros on the left, after a leading sign when it has one.
\<close>

definition zfill :: "nat \<Rightarrow> string \<Rightarrow> string" where
  "zfill width s =
     (if width \<le> length s then s
      else (case s of
              [] \<Rightarrow> replicate width (CHR ''0'')
            | c # rest \<Rightarrow>
                if c = CHR ''+'' \<or> c = CHR ''-''
                then c # replicate (width - length s) (CHR ''0'') @ rest
                else replicate (width - length s) (CHR ''0'') @ s))"

text \<open>
  The clean-up of lines 35 and 78 of \<^verbatim>\<open>alice_tiger_integration.py\<close> (and line 137 of
  \<^verbatim>\<open>alice_census_integration.py\<close>), applied to the text that \<^verbatim>\<open>astype(str)\<close> gives for
  the cell of \<^verbatim>\<open>GEO id2\<close>: \<^verbatim>\<open>'6037'\<close> in an integer column, \<^verbatim>\<open>'6037.0'\<close> in a float
  column, \<^verbatim>\<open>'nan'\<close> for a blank cell.
\<close>

definition clean_fips :: "string \<Rightarrow> string" where
  "clean_fips raw = zfill 5 (split_dot_first raw)"

text \<open>The filter of line 81: a row is kept as valid when its FIPS has five characters.\<close>

definition valid_fips :: "string \<Rightarrow> bool" where
  "valid_fips f = (length f = 5)"

text \<open>Both steps together: the canonical identifier of a raw one, or none.\<close>

definition canonicalize :: "string \<Rightarrow> string option" where
  "canonicalize raw = (let f = clean_fips raw in if valid_fips f then Some f else None)"

text \<open>What the specification asks of a canonical identifier: five characters, all digits.\<close>

definition is_digit :: "char \<Rightarrow> bool" where
  "is_digit c = (c \<in> set ''0123456789'')"

definition spec_valid_id :: "string \<Rightarrow> bool" where
  "spec_valid_id f = (length f = 5 \<and> list_all is_digit f)"

subsection \<open>County boundaries and ALICE rows\<close>

text \<open>
  A row of the county shapefile, with the columns the code reads; the geometry is opaque.
\<close>

record 'g county =
  GEOID :: string
  NAME :: string
  STUSPS :: string
  geometry :: 'g

text \<open>
  A row of \<^verbatim>\<open>ALICE_Mapping_County_Data.csv\<close>: the ten columns that
  \<^verbatim>\<open>alice_data_cleaner.py\<close> writes (\<^verbatim>\<open>mapping_fields\<close>). A blank text cell is
  \<open>None\<close>, a blank number is \<open>NaN\<close>. \<open>GEO_id2\<close> holds the text that
  \<^verbatim>\<open>astype(str)\<close> gives for a filled cell.
\<close>

record alice_row =
  State :: "string option"
  State_Abbr_col :: "string option"
  County :: "string option"
  GEO_id2 :: "string option"
  GEO_display_label :: "string option"
  Households :: fl
  Poverty_Percentage :: fl
  ALICE_Percentage :: fl
  Below_ALICE_Threshold_Percentage :: fl
  Above_ALICE_Percentage :: fl

text \<open>
  A row of the merged frame: the boundary's columns and the ALICE columns, which are all
  missing where the left merge found no partner. The two files share no column name.
\<close>

record 'g merged_row =
  boundary :: "'g county"
  attrs :: alice_row

definition missing_attrs :: alice_row where
  "missing_attrs =
     \<lparr>State = None, State_Abbr_col = None, County = None, GEO_id2 = None,
      GEO_display_label = None, Households = NaN, Poverty_Percentage = NaN,
      ALICE_Percentage = NaN, Below_ALICE_Threshold_Percentage = NaN,
      Above_ALICE_Percentage = NaN\<rparr>"

text \<open>\<^verbatim>\<open>astype(str)\<close> on the identifier column: a blank cell becomes the text \<^verbatim>\<open>'nan'\<close>.\<close>

definition astype_str :: "string option \<Rightarrow> string" where
  "astype_str c = (case c of None \<Rightarrow> ''nan'' | Some s \<Rightarrow> s)"

text \<open>Line 78: the \<^verbatim>\<open>FIPS\<close> column of an ALICE row.\<close>

definition fips_of :: "alice_row \<Rightarrow> string" where
  "fips_of a = clean_fips (astype_str (GEO_id2 a))"

text \<open>Lines 81 and 82: the rows with a five-character FIPS, and the others.\<close>

definition valid_fips_alice :: "alice_row list \<Rightarrow> alice_row list" where
  "valid_fips_alice alice_df = filter (\<lambda>a. valid_fips (fips_of a)) alice_df"

definition missing_fips_alice :: "alice_row list \<Rightarrow> alice_row list" where
  "missing_fips_alice alice_df = filter (\<lambda>a. \<not> valid_fips (fips_of a)) alice_df"

text \<open>
  Lines 88 to 93, \<^verbatim>\<open>counties_gdf.merge(valid_fips_alice, left_on='GEOID',
  right_on='FIPS', how='left')\<close>: the boundaries in their order; a boundary with partners
  gives one row for each partner, in the partners' order; a boundary with none gives one row
  with the ALICE columns missing.
\<close>

definition merge_rows :: "'g county \<Rightarrow> alice_row list \<Rightarrow> 'g merged_row list" where
  "merge_rows c valid =
     (let partners = filter (\<lambda>a. fips_of a = GEOID c) valid
      in if partners = [] then [\<lparr>boundary = c, attrs = missing_attrs\<rparr>]
         else map (\<lambda>a. \<lparr>boundary = c, attrs = a\<rparr>) partners)"

definition merge_left :: "'g county list \<Rightarrow> alice_row list \<Rightarrow> 'g merged_row list" where
  "merge_left counties_gdf valid = concat (map (\<lambda>c. merge_rows c valid) counties_gdf)"

text \<open>Lines 100 to 151: the table from state names to postal abbreviations.\<close>

definition state_mapping :: "(string \<times> string) list" where
  "state_mapping =
     [(''Alabama'', ''AL''), (''Alaska'', ''AK''), (''Arizona'', ''AZ''),
      (''Arkansas'', ''AR''), (''California'', ''CA''), (''Colorado'', ''CO''),
      (''Connecticut'', ''CT''), (''Delaware'', ''DE''), (''Florida'', ''FL''),
      (''Georgia'', ''GA''), (''Hawaii'', ''HI''), (''Idaho'', ''ID''),
      (''Illinois'', ''IL''), (''Indiana'', ''IN''), (''Iowa'', ''IA''),
      (''Kansas'', ''KS''), (''Kentucky'', ''KY''), (''Louisiana'', ''LA''),
      (''Maine'', ''ME''), (''Maryland'', ''MD''), (''Massachusetts'', ''MA''),
      (''Michigan'', ''MI''), (''Minnesota'', ''MN''), (''Mississippi'', ''MS''),
      (''Missouri'', ''MO''), (''Montana'', ''MT''), (''Nebraska'', ''NE''),
      (''Nevada'', ''NV''), (''New Hampshire'', ''NH''), (''New Jersey'', ''NJ''),
      (''New Mexico'', ''NM''), (''New York'', ''NY''), (''North Carolina'', ''NC''),
      (''North Dakota'', ''ND''), (''Ohio'', ''OH''), (''Oklahoma'', ''OK''),
      (''Oregon'', ''OR''), (''Pennsylvania'', ''PA''), (''Rhode Island'', ''RI''),
      (''South Carolina'', ''SC''), (''South Dakota'', ''SD''), (''Tennessee'', ''TN''),
      (''Texas'', ''TX''), (''Utah'', ''UT''), (''Vermont'', ''VT''),
      (''Virginia'', ''VA''), (''Washington'', ''WA''), (''West Virginia'', ''WV''),
      (''Wisconsin'', ''WI''), (''Wyoming'', ''WY'')]"

text \<open>
  Line 153, \<^verbatim>\<open>missing_fips_alice['State'].map(state_mapping)\<close>: the abbreviation of the
  row's state, missing when the state is blank or not a key of the table.
\<close>

definition State_Abbr :: "alice_row \<Rightarrow> string option" where
  "State_Abbr a = (case State a of None \<Rightarrow> None | Some s \<Rightarrow> map_of state_mapping s)"

text \<open>\<^verbatim>\<open>str.lower\<close> on ASCII text.\<close>

definition lower_char :: "char \<Rightarrow> char" where
  "lower_char c =
     (let n = (of_char c :: nat) in if 65 \<le> n \<and> n \<le> 90 then char_of (n + 32) else c)"

definition lower :: "string \<Rightarrow> string" where
  "lower s = map lower_char s"

text \<open>
  Lines 157 to 167: a row with a blank county or no abbreviation is skipped; otherwise the
  boundaries of that state whose name equals the county up to letter case are looked up, and
  the row is matched when there is exactly one. The result is the \<^verbatim>\<open>GEOID\<close> to update.
\<close>

definition county_match :: "'g county list \<Rightarrow> string \<Rightarrow> string \<Rightarrow> 'g county list" where
  "county_match counties_gdf abbr name =
     filter (\<lambda>c. STUSPS c = abbr \<and> lower (NAME c) = lower name) counties_gdf"

definition name_match :: "'g county list \<Rightarrow> alice_row \<Rightarrow> string option" where
  "name_match counties_gdf a =
     (case (County a, State_Abbr a) of
        (Some name, Some abbr) \<Rightarrow>
          (case county_match counties_gdf abbr name of
             [c] \<Rightarrow> Some (GEOID c)
           | _ \<Rightarrow> None)
      | _ \<Rightarrow> None)"

text \<open>
  Lines 170 to 175: on a merged row selected by the mask, each of the five metric columns
  takes the ALICE row's value when that value is not missing; \<^verbatim>\<open>State\<close> and
  \<^verbatim>\<open>County\<close> are always taken.
\<close>

definition fill :: "fl \<Rightarrow> fl \<Rightarrow> fl" where
  "fill new old = (if notna new then new else old)"

definition update_row :: "alice_row \<Rightarrow> 'g merged_row \<Rightarrow> 'g merged_row" where
  "update_row a m =
     m\<lparr>attrs := (attrs m)
        \<lparr>Households := fill (Households a) (Households (attrs m)),
         Poverty_Percentage := fill (Poverty_Percentage a) (Poverty_Percentage (attrs m)),
         ALICE_Percentage := fill (ALICE_Percentage a) (ALICE_Percentage (attrs m)),
         Below_ALICE_Threshold_Percentage :=
           fill (Below_ALICE_Threshold_Percentage a)
             (Below_ALICE_Threshold_Percentage (attrs m)),
         Above_ALICE_Percentage :=
           fill (Above_ALICE_Percentage a) (Above_ALICE_Percentage (attrs m)),
         State := State a,
         County := County a\<rparr>\<rparr>"

text \<open>One turn of the loop of line 156, for the ALICE row \<open>a\<close>.\<close>

definition apply_name_match ::
  "'g county list \<Rightarrow> 'g merged_row list \<Rightarrow> alice_row \<Rightarrow> 'g merged_row list" where
  "apply_name_match counties_gdf merged_gdf a =
     (case name_match counties_gdf a of
        None \<Rightarrow> merged_gdf
      | Some geoid \<Rightarrow>
          map (\<lambda>m. if GEOID (boundary m) = geoid then update_row a m else m) merged_gdf)"

text \<open>Lines 96 to 176: the loop over the rows without a five-character FIPS, in order.\<close>

definition secondary_join ::
  "'g county list \<Rightarrow> 'g merged_row list \<Rightarrow> alice_row list \<Rightarrow> 'g merged_row list" where
  "secondary_join counties_gdf merged_gdf missing =
     foldl (apply_name_match counties_gdf) merged_gdf missing"

text \<open>Line 77: the boundary identifiers are padded to five characters.\<close>

definition pad_geoid :: "'g county \<Rightarrow> 'g county" where
  "pad_geoid c = c\<lparr>GEOID := zfill 5 (GEOID c)\<rparr>"

text \<open>
  \<^verbatim>\<open>create_county_choropleth_data\<close>, from the two loaded frames to the merged frame
  (the helper column \<^verbatim>\<open>FIPS\<close>, dropped at the end, is not kept in the rows).
\<close>

definition create_county_choropleth_data ::
  "'g county list \<Rightarrow> alice_row list \<Rightarrow> 'g merged_row list" where
  "create_county_choropleth_data shapefile alice_df =
     (let counties_gdf = map pad_geoid shapefile;
          merged_gdf = merge_left counties_gdf (valid_fips_alice alice_df)
      in secondary_join counties_gdf merged_gdf (missing_fips_alice alice_df))"

subsection \<open>Frames of the consolidator\<close>

text \<open>
  \<^verbatim>\<open>alice_data_consolidator.py\<close> works on sheets whose columns are only known at run time.
  A frame is the list of its column names and its rows; a row gives the cell of every column
  name, a number (blank: \<open>Num NaN\<close>) or a text. The cells of names that are not columns of
  the frame are never read.
\<close>

datatype cell = Num fl | Str string

type_synonym row = "string \<Rightarrow> cell"

record frame =
  columns :: "string list"
  rows :: "row list"

datatype py_error = TypeError | KeyError | ValueError | OverflowError | ZeroDivisionError

fun cell_isna :: "cell \<Rightarrow> bool" where
  "cell_isna (Num x) = isna x"
| "cell_isna (Str s) = False"

fun is_num :: "cell \<Rightarrow> bool" where
  "is_num (Num x) = True"
| "is_num (Str s) = False"

fun the_num :: "cell \<Rightarrow> fl" where
  "the_num (Num x) = x"
| "the_num (Str s) = NaN"

text \<open>\<^verbatim>\<open>df[c]\<close>, the cells of one column.\<close>

definition series :: "frame \<Rightarrow> string \<Rightarrow> cell list" where
  "series df c = map (\<lambda>r. r c) (rows df)"

text \<open>\<^verbatim>\<open>df.dropna(how='all')\<close>: a row is dropped when every column of the frame is blank in it.\<close>

definition dropna_all :: "frame \<Rightarrow> frame" where
  "dropna_all df =
     df\<lparr>rows := filter (\<lambda>r. \<not> list_all (\<lambda>c. cell_isna (r c)) (columns df)) (rows df)\<rparr>"

text \<open>\<^verbatim>\<open>df[cols].copy()\<close>: the frame of the listed columns.\<close>

definition select_columns :: "string list \<Rightarrow> frame \<Rightarrow> frame" where
  "select_columns cols df =
     \<lparr>columns = cols,
      rows = map (\<lambda>r c. if c \<in> set cols then r c else Num NaN) (rows df)\<rparr>"

text \<open>
  A column is numeric (float64 or int64) when all its cells are numbers. A column that holds a
  text is an object column, and the column arithmetic of pandas raises on it; the model reports
  that as \<open>TypeError\<close> and says nothing more about object columns.
\<close>

definition numeric_column :: "frame \<Rightarrow> string \<Rightarrow> bool" where
  "numeric_column df c = list_all (\<lambda>r. is_num (r c)) (rows df)"

definition expected_cols :: "string list" where
  "expected_cols =
     [''State'', ''Year'', ''GEO id2'', ''GEO display_label'', ''County'', ''State Abbr'',
      ''Households'', ''Poverty Households'', ''ALICE Households'', ''Above ALICE Households'',
      ''ALICE Threshold - HH under 65'', ''ALICE Threshold - HH 65 years and over'']"

definition household_cols :: "string list" where
  "household_cols =
     [''Households'', ''Poverty Households'', ''ALICE Households'', ''Above ALICE Households'']"

definition calculated_cols :: "string list" where
  "calculated_cols =
     [''Poverty_Percentage'', ''ALICE_Percentage'', ''Above_ALICE_Percentage'',
      ''Below_ALICE_Threshold_Total'', ''Below_ALICE_Threshold_Percentage'']"

text \<open>\<^verbatim>\<open>(part / whole * 100).round(2)\<close>, for one row.\<close>

definition percentage :: "fl \<Rightarrow> fl \<Rightarrow> fl" where
  "percentage part whole = fl_round 2 (fl_mul (fl_div part whole) (Fin 100))"

text \<open>Lines 103 to 107 of \<^verbatim>\<open>clean_county_data\<close>, for one row.\<close>

definition add_calculated_fields :: "row \<Rightarrow> row" where
  "add_calculated_fields r =
     (let households = the_num (r ''Households'');
          poverty = the_num (r ''Poverty Households'');
          alice = the_num (r ''ALICE Households'');
          above = the_num (r ''Above ALICE Households'');
          below_total = fl_add poverty alice
      in r(''Poverty_Percentage'' := Num (percentage poverty households),
           ''ALICE_Percentage'' := Num (percentage alice households),
           ''Above_ALICE_Percentage'' := Num (percentage above households),
           ''Below_ALICE_Threshold_Total'' := Num below_total,
           ''Below_ALICE_Threshold_Percentage'' := Num (percentage below_total households)))"

text \<open>Lines 110 and 111: the two provenance columns; \<open>today\<close> is the date of the run.\<close>

definition add_metadata :: "string \<Rightarrow> string \<Rightarrow> frame \<Rightarrow> frame" where
  "add_metadata state_name today df =
     \<lparr>columns = columns df @ [''Data_Source_File'', ''Processing_Date''],
      rows = map (\<lambda>r. r(''Data_Source_File'' := Str state_name,
                         ''Processing_Date'' := Str today)) (rows df)\<rparr>"

text \<open>
  \<^verbatim>\<open>clean_county_data(df, state_name)\<close>. The percentages are added only when all four
  household columns are there (line 102).
\<close>

definition clean_county_data :: "frame \<Rightarrow> string \<Rightarrow> string \<Rightarrow> py_error + frame" where
  "clean_county_data sheet state_name today =
     (let df = dropna_all sheet;
          existing_cols = filter (\<lambda>c. c \<in> set (columns df)) expected_cols;
          df = select_columns existing_cols df
      in if list_all (\<lambda>c. c \<in> set (columns df)) household_cols
         then if list_all (numeric_column df) household_cols
              then Inr (add_metadata state_name today
                     \<lparr>columns = columns df @ calculated_cols,
                      rows = map add_calculated_fields (rows df)\<rparr>)
              else Inl TypeError
         else Inr (add_metadata state_name today df))"

text \<open>
  When a percentage is missing, as the arithmetic has it: a term is missing, or both terms are
  zero, or both are infinite.
\<close>

fun is_inf :: "fl \<Rightarrow> bool" where
  "is_inf PInf = True"
| "is_inf NInf = True"
| "is_inf _ = False"

definition quotient_missing :: "fl \<Rightarrow> fl \<Rightarrow> bool" where
  "quotient_missing part whole =
     (isna part \<or> isna whole \<or> (part = Fin 0 \<and> whole = Fin 0) \<or> (is_inf part \<and> is_inf whole))"

subsection \<open>Summary statistics\<close>

text \<open>
  \<^verbatim>\<open>Series.sum()\<close> and \<^verbatim>\<open>Series.mean()\<close> of pandas with their default \<^verbatim>\<open>skipna=True\<close>:
  the sum takes a missing value as zero; the mean divides that sum by the number of values
  that are not missing, and is NaN when there is none.
\<close>

fun nansum :: "fl list \<Rightarrow> fl" where
  "nansum [] = Fin 0"
| "nansum (x # xs) = fl_add (if isna x then Fin 0 else x) (nansum xs)"

definition notna_count :: "fl list \<Rightarrow> nat" where
  "notna_count xs = length (filter notna xs)"

definition series_mean :: "fl list \<Rightarrow> fl" where
  "series_mean xs =
     (let count = notna_count xs
      in if 0 < count then fl_div (nansum xs) (Fin (of_nat count)) else NaN)"





text \<open>
  The county part of \<^verbatim>\<open>create_summary_statistics\<close> of \<^verbatim>\<open>alice_data_consolidator.py\<close>
  (lines 146 to 155), on the master frame: nothing when the frame is empty; the count of
  states needs the column \<^verbatim>\<open>State\<close>; a statistic of a column that the frame does not
  have is 0. A statistic of a column that holds a text is taken to raise (pandas raises for
  the mean, and for the sum unless every cell is a text).
\<close>

record county_stats =
  total_counties_master :: nat
  total_states :: nat
  total_households_county :: fl
  avg_poverty_percentage_master :: fl
  avg_alice_percentage_master :: fl
  avg_below_alice_threshold :: fl

definition column_stat :: "(fl list \<Rightarrow> fl) \<Rightarrow> frame \<Rightarrow> string \<Rightarrow> py_error + fl" where
  "column_stat f df c =
     (if c \<in> set (columns df)
      then if numeric_column df c then Inr (f (map the_num (series df c))) else Inl TypeError
      else Inr (Fin 0))"

definition nunique :: "cell list \<Rightarrow> nat" where
  "nunique cs = length (remdups (filter (\<lambda>c. \<not> cell_isna c) cs))"

definition create_summary_statistics :: "frame \<Rightarrow> (py_error + county_stats) option" where
  "create_summary_statistics master_county =
     (if rows master_county = [] \<or> columns master_county = [] then None
      else Some
        (if ''State'' \<notin> set (columns master_county) then Inl KeyError
         else case column_stat nansum master_county ''Households'' of
           Inl e \<Rightarrow> Inl e
         | Inr households \<Rightarrow>
         (case column_stat series_mean master_county ''Poverty_Percentage'' of
           Inl e \<Rightarrow> Inl e
         | Inr poverty \<Rightarrow>
         (case column_stat series_mean master_county ''ALICE_Percentage'' of
           Inl e \<Rightarrow> Inl e
         | Inr alice \<Rightarrow>
         (case column_stat series_mean master_county ''Below_ALICE_Threshold_Percentage'' of
           Inl e \<Rightarrow> Inl e
         | Inr below \<Rightarrow>
             Inr \<lparr>total_counties_master = length (rows master_county),
                  total_states = nunique (series master_county ''State''),
                  total_households_county = households,
                  avg_poverty_percentage_master = poverty,
                  avg_alice_percentage_master = alice,
                  avg_below_alice_threshold = below\<rparr>)))))"

subsection \<open>Census demographics\<close>









subsection \<open>Mock demographics\<close>

text \<open>
  The pseudo-random generator of numpy is a parameter of the model: its states, the state
  that \<^verbatim>\<open>np.random.seed(n)\<close> sets, and \<^verbatim>\<open>np.random.normal(loc, scale)\<close>, which reads the
  state and gives a finite number and the next state. The generator is global, so the
  function below takes the state left by whatever ran before and returns the state it leaves.
\<close>

record 'g generator =
  seed :: "nat \<Rightarrow> 'g"
  normal :: "rat \<Rightarrow> rat \<Rightarrow> 'g \<Rightarrow> rat \<times> 'g"

record mock_row =
  mock_FIPS :: string
  mock_Total_Population :: int
  Total_Housing_Units :: int
  Median_Household_Income :: int
  Median_Home_Value :: int
  White_Alone :: int
  Black_Alone :: int
  Hispanic_Latino :: int
  Asian_Alone :: int
  College_Degree_Rate :: rat
  Homeownership_Rate :: rat
  Elderly_Population_Rate :: rat
  Work_From_Home_Rate :: rat
  Unemployment_Rate :: rat
  Minority_Population_Rate :: rat

text \<open>\<^verbatim>\<open>int(x)\<close> on a finite number truncates towards zero.\<close>

definition py_int :: "rat \<Rightarrow> int" where
  "py_int x = (if 0 \<le> x then \<lfloor>x\<rfloor> else \<lceil>x\<rceil>)"

text \<open>\<^verbatim>\<open>round(x, 1)\<close> of Python: one decimal, a tie going to the even neighbour.\<close>

definition py_round1 :: "rat \<Rightarrow> rat" where
  "py_round1 x = of_int (rint (x * 10)) / 10"

text \<open>
  Lines 142 to 167, for one row with a five-character FIPS. Twelve numbers are drawn, in the
  order of the source. With an infinite household count the first \<^verbatim>\<open>int(...)\<close> raises.
\<close>

definition mock_record ::
  "'g generator \<Rightarrow> string \<Rightarrow> fl \<Rightarrow> 'g \<Rightarrow> py_error + (mock_row \<times> 'g)" where
  "mock_record gen fips households_cell g0 =
     (let households = (if notna households_cell then households_cell else Fin 10000);
          (z1, g1) = normal gen 0 (3 / 10) g0
      in case households of
           Fin h \<Rightarrow>
             (let population = py_int (h * (23 / 10 + z1));
                  rural_factor = (if h < 5000 then 1 else if h < 25000 then 1 / 2 else 1 / 5);
                  urban_factor = 1 - rural_factor;
                  housing_units = py_int (h * (115 / 100));
                  (z2, g2) = normal gen 0 15000 g1;
                  (z3, g3) = normal gen 0 80000 g2;
                  (z4, g4) = normal gen 0 (1 / 10) g3;
                  (z5, g5) = normal gen 0 (8 / 100) g4;
                  (z6, g6) = normal gen 0 (1 / 10) g5;
                  (z7, g7) = normal gen 0 (2 / 100) g6;
                  (z8, g8) = normal gen 0 8 g7;
                  (z9, g9) = normal gen 0 8 g8;
                  (z10, g10) = normal gen 0 3 g9;
                  (z11, g11) = normal gen 0 3 g10;
                  (z12, g12) = normal gen 0 2 g11
              in Inr
                (\<lparr>mock_FIPS = fips,
                  mock_Total_Population = population,
                  Total_Housing_Units = housing_units,
                  Median_Household_Income = py_int (35000 + z2 + urban_factor * 20000),
                  Median_Home_Value = py_int (120000 + z3 + urban_factor * 100000),
                  White_Alone =
                    py_int (of_int population * (6 / 10 + rural_factor * (2 / 10) + z4)),
                  Black_Alone = py_int (of_int population * (12 / 100 + z5)),
                  Hispanic_Latino = py_int (of_int population * (15 / 100 + z6)),
                  Asian_Alone =
                    py_int (of_int population * (3 / 100 + urban_factor * (5 / 100) + z7)),
                  College_Degree_Rate = py_round1 (15 + urban_factor * 15 + z8),
                  Homeownership_Rate = py_round1 (65 + rural_factor * 10 + z9),
                  Elderly_Population_Rate = py_round1 (12 + rural_factor * 5 + z10),
                  Work_From_Home_Rate = py_round1 (3 + urban_factor * 8 + z11),
                  Unemployment_Rate = py_round1 (4 + z12),
                  Minority_Population_Rate =
                    py_round1 ((1 - (6 / 10 + rural_factor * (2 / 10))) * 100)\<rparr>,
                 g12))
         | _ \<Rightarrow> Inl (if 23 / 10 + z1 = 0 then ValueError else OverflowError))"

text \<open>The loop of line 136: rows without a five-character FIPS are skipped and draw nothing.\<close>

fun mock_rows ::
  "'g generator \<Rightarrow> alice_row list \<Rightarrow> 'g \<Rightarrow> py_error + (mock_row list \<times> 'g)" where
  "mock_rows gen [] g = Inr ([], g)"
| "mock_rows gen (row # rest) g =
     (if \<not> valid_fips (fips_of row) then mock_rows gen rest g
      else (case mock_record gen (fips_of row) (Households row) g of
              Inl e \<Rightarrow> Inl e
            | Inr (m, g') \<Rightarrow>
                (case mock_rows gen rest g' of
                   Inl e \<Rightarrow> Inl e
                 | Inr (ms, g'') \<Rightarrow> Inr (m # ms, g''))))"

text \<open>
  \<^verbatim>\<open>_create_mock_demographics\<close>: \<open>g\<close> is the state of the global generator when the
  function is called, \<open>alice_df\<close> the table read from the ALICE file. Line 133 sets the
  state from the constant 42 before the loop.
\<close>

definition create_mock_demographics ::
  "'g generator \<Rightarrow> 'g \<Rightarrow> alice_row list \<Rightarrow> py_error + (mock_row list \<times> 'g)" where
  "create_mock_demographics gen g alice_df = (let g = seed gen 42 in mock_rows gen alice_df g)"

subsection \<open>Sample rows\<close>

text \<open>Two boundaries and a way to write an ALICE row, for the evaluated examples.\<close>

definition sample_los_angeles :: "unit county" where
  "sample_los_angeles =
     \<lparr>GEOID = ''06037'', NAME = ''Los Angeles'', STUSPS = ''CA'', geometry = ()\<rparr>"

definition sample_harris :: "unit county" where
  "sample_harris = \<lparr>GEOID = ''48201'', NAME = ''Harris'', STUSPS = ''TX'', geometry = ()\<rparr>"

definition sample_row :: "string option \<Rightarrow> string \<Rightarrow> string \<Rightarrow> rat \<Rightarrow> alice_row" where
  "sample_row ident state_name county_name hh =
     \<lparr>State = Some state_name, State_Abbr_col = None, County = Some county_name,
      GEO_id2 = ident, GEO_display_label = None, Households = Fin hh,
      Poverty_Percentage = Fin 15, ALICE_Percentage = Fin 30,
      Below_ALICE_Threshold_Percentage = Fin 45, Above_ALICE_Percentage = Fin 55\<rparr>"

definition sample_sheet :: "(fl \<times> fl \<times> fl \<times> fl) list \<Rightarrow> frame" where
  "sample_sheet counts =
     \<lparr>columns = [''State'', ''Households'', ''Poverty Households'', ''ALICE Households'',
                 ''Above ALICE Households''],
      rows = map (\<lambda>(h, p, a, b).
                (\<lambda>c. Num NaN)(''State'' := Str ''Texas'', ''Households'' := Num h,
                  ''Poverty Households'' := Num p, ''ALICE Households'' := Num a,
                  ''Above ALICE Households'' := Num b)) counts\<rparr>"

definition sample_master :: frame where
  "sample_master =
     \<lparr>columns = [''State'', ''Households'', ''Poverty_Percentage''],
      rows = [(\<lambda>c. Num NaN)(''State'' := Str ''Texas'', ''Households'' := Num (Fin 0)),
              (\<lambda>c. Num NaN)(''State'' := Str ''Texas'')]\<rparr>"

definition sample_master_stats :: county_stats where
  "sample_master_stats =
     \<lparr>total_counties_master = 2, total_states = 1, total_households_county = Fin 0,
      avg_poverty_percentage_master = NaN, avg_alice_percentage_master = Fin 0,
      avg_below_alice_threshold = Fin 0\<rparr>"



subsection \<open>Properties of the identifier clean-up\<close>

lemma zfill_long: "width \<le> length s \<Longrightarrow> zfill width s = s"
  by (simp add: zfill_def)

lemma length_zfill: "length (zfill width s) = max width (length s)"
  by (cases s) (auto simp: zfill_def)

lemma split_dot_first_no_dot: "CHR ''.'' \<notin> set s \<Longrightarrow> split_dot_first s = s"
  unfolding split_dot_first_def by (induction s) auto

lemma split_dot_first_dotfree: "CHR ''.'' \<notin> set (split_dot_first s)"
  unfolding split_dot_first_def by (induction s) auto

lemma zfill_dotfree: "CHR ''.'' \<notin> set s \<Longrightarrow> CHR ''.'' \<notin> set (zfill width s)"
  by (cases s) (auto simp: zfill_def)

lemma clean_fips_dotfree: "CHR ''.'' \<notin> set (clean_fips raw)"
  by (simp add: clean_fips_def zfill_dotfree split_dot_first_dotfree)

lemma length_clean_fips: "5 \<le> length (clean_fips raw)"
  by (simp add: clean_fips_def length_zfill)

lemma clean_fips_idem: "clean_fips (clean_fips raw) = clean_fips raw"
proof -
  have "split_dot_first (clean_fips raw) = clean_fips raw"
    by (rule split_dot_first_no_dot) (rule clean_fips_dotfree)
  then have "clean_fips (clean_fips raw) = zfill 5 (clean_fips raw)"
    by (simp add: clean_fips_def)
  also have "\<dots> = clean_fips raw"
    by (rule zfill_long) (rule length_clean_fips)
  finally show ?thesis .
qed

text \<open>
  Claim C9. Canonicalization is idempotent: an identifier that canonicalizes to a valid
  identifier \<open>y\<close> gives \<open>y\<close> again when the transform is applied to \<open>y\<close>.
\<close>

theorem canonicalize_idempotent:
  "canonicalize x = Some y \<Longrightarrow> canonicalize y = Some y"
proof -
  assume a: "canonicalize x = Some y"
  then have y: "y = clean_fips x" and v: "valid_fips (clean_fips x)"
    by (auto simp: canonicalize_def Let_def split: if_splits)
  have "clean_fips y = y"
    using y clean_fips_idem by simp
  with y v show ?thesis
    by (simp add: canonicalize_def Let_def)
qed

theorem canonicalize_idempotent_witness:
  "canonicalize ''6037.0'' = Some ''06037'' \<and> canonicalize ''06037'' = Some ''06037''"
proof -
  have h: "canonicalize ''6037.0'' = Some ''06037''"
    by (simp add: canonicalize_def clean_fips_def zfill_def split_dot_first_def valid_fips_def)
  from canonicalize_idempotent [OF h] h show ?thesis by simp
qed

text \<open>
  What the clean-up does for every raw identifier: a result longer than five characters is
  refused, never cut, and a result of five digits is accepted as it is.
\<close>

lemma canonicalize_too_long: "5 < length (split_dot_first raw) \<Longrightarrow> canonicalize raw = None"
  by (simp add: canonicalize_def clean_fips_def valid_fips_def zfill_def)

lemma canonicalize_five_digits:
  "spec_valid_id (clean_fips raw) \<Longrightarrow> canonicalize raw = Some (clean_fips raw)"
  by (simp add: canonicalize_def valid_fips_def spec_valid_id_def)

text \<open>
  Claim C3, evaluated on the code. The text \<^verbatim>\<open>'nan'\<close> of a blank cell and the text
  \<^verbatim>\<open>'12A45'\<close> are not five digits, and the code keeps both as valid identifiers: the filter
  of line 81 looks at the length only.
\<close>

theorem canonicalize_accepts_non_digits:
  "canonicalize ''nan'' = Some ''00nan'' \<and> \<not> spec_valid_id ''00nan'' \<and>
   canonicalize ''12A45'' = Some ''12A45'' \<and> \<not> spec_valid_id ''12A45''"
  by code_simp

subsection \<open>The merge keeps every boundary\<close>

lemma update_row_boundary: "boundary (update_row a m) = boundary m"
  by (simp add: update_row_def)

lemma map_boundary_apply_name_match:
  "map boundary (apply_name_match cs ms a) = map boundary ms"
  by (auto simp: apply_name_match_def update_row_boundary split: option.splits)

lemma map_boundary_secondary_join:
  "map boundary (secondary_join cs ms missing) = map boundary ms"
  unfolding secondary_join_def
  by (induction missing arbitrary: ms) (simp_all add: map_boundary_apply_name_match)

lemma map_boundary_merge_rows:
  "map boundary (merge_rows c valid) =
     replicate (max 1 (length (filter (\<lambda>a. fips_of a = GEOID c) valid))) c"
proof (cases "filter (\<lambda>a. fips_of a = GEOID c) valid")
  case Nil
  then show ?thesis by (simp add: merge_rows_def)
next
  case (Cons p ps)
  then show ?thesis
    by (simp add: merge_rows_def comp_def map_replicate_const flip: replicate_Suc)
qed

lemma set_boundary_merge_left: "set (map boundary (merge_left cs valid)) = set cs"
  unfolding merge_left_def
  by (induction cs) (auto simp: map_boundary_merge_rows simp del: map_map)

lemma length_merge_left: "length cs \<le> length (merge_left cs valid)"
  unfolding merge_left_def
proof (induction cs)
  case Nil show ?case by simp
next
  case (Cons c cs)
  have "1 \<le> length (merge_rows c valid)"
    using arg_cong [OF map_boundary_merge_rows [of c valid], of length] by simp
  with Cons show ?case by simp
qed

lemma length_apply_name_match: "length (apply_name_match cs ms a) = length ms"
  by (simp add: apply_name_match_def split: option.splits)

lemma length_secondary_join: "length (secondary_join cs ms missing) = length ms"
  using arg_cong [OF map_boundary_secondary_join [of cs ms missing], of length] by simp

lemma apply_name_match_miss:
  "name_match cs a \<noteq> Some (GEOID (boundary (ms ! i))) \<Longrightarrow> i < length ms \<Longrightarrow>
   apply_name_match cs ms a ! i = ms ! i"
  by (auto simp: apply_name_match_def split: option.splits)

lemma secondary_join_miss:
  "\<forall>a \<in> set missing. name_match cs a \<noteq> Some (GEOID (boundary (ms ! i))) \<Longrightarrow>
   i < length ms \<Longrightarrow> secondary_join cs ms missing ! i = ms ! i"
  unfolding secondary_join_def
proof (induction missing arbitrary: ms)
  case Nil
  show ?case by simp
next
  case (Cons a missing)
  let ?ms = "apply_name_match cs ms a"
  have same: "?ms ! i = ms ! i"
    using Cons.prems by (simp add: apply_name_match_miss)
  have "foldl (apply_name_match cs) ?ms missing ! i = ?ms ! i"
    using Cons.prems same by (intro Cons.IH) (simp_all add: length_apply_name_match)
  with same show ?case by simp
qed

lemma merge_rows_unmatched:
  "m \<in> set (merge_rows c valid) \<Longrightarrow> \<forall>a \<in> set valid. fips_of a \<noteq> GEOID (boundary m) \<Longrightarrow>
   attrs m = missing_attrs"
  by (auto simp: merge_rows_def Let_def filter_empty_conv split: if_splits)

lemma merge_left_unmatched:
  "m \<in> set (merge_left cs valid) \<Longrightarrow> \<forall>a \<in> set valid. fips_of a \<noteq> GEOID (boundary m) \<Longrightarrow>
   attrs m = missing_attrs"
  by (auto simp: merge_left_def dest: merge_rows_unmatched)

lemma secondary_join_unmatched:
  assumes m: "m \<in> set (secondary_join cs ms missing)"
    and nm: "\<forall>a \<in> set missing. name_match cs a \<noteq> Some (GEOID (boundary m))"
  shows "m \<in> set ms"
proof -
  from m obtain i where i: "i < length ms" and mi: "secondary_join cs ms missing ! i = m"
    by (auto simp: in_set_conv_nth length_secondary_join)
  have "boundary (ms ! i) = boundary m"
    using arg_cong [OF map_boundary_secondary_join [of cs ms missing], of "\<lambda>xs. xs ! i"] i mi
    by (simp add: length_secondary_join)
  with nm i have "secondary_join cs ms missing ! i = ms ! i"
    by (intro secondary_join_miss) simp_all
  with mi i show ?thesis by auto
qed

lemma length_merge_rows:
  "length (merge_rows c valid) = max 1 (length (filter (\<lambda>a. fips_of a = GEOID c) valid))"
  using arg_cong [OF map_boundary_merge_rows [of c valid], of length] by simp

lemma merge_rows_boundary_one:
  "length (filter (\<lambda>a. fips_of a = GEOID c) valid) \<le> 1 \<Longrightarrow>
   map boundary (merge_rows c valid) = [c]"
  by (simp add: map_boundary_merge_rows max_def)

lemma map_boundary_merge_left_one:
  "\<forall>c \<in> set cs. length (filter (\<lambda>a. fips_of a = GEOID c) valid) \<le> 1 \<Longrightarrow>
   map boundary (merge_left cs valid) = cs"
  unfolding merge_left_def
  by (induction cs) (simp_all add: merge_rows_boundary_one)

lemma length_merge_left_eq:
  "(length (merge_left cs valid) = length cs) =
   (\<forall>c \<in> set cs. length (filter (\<lambda>a. fips_of a = GEOID c) valid) \<le> 1)"
proof (induction cs)
  case Nil
  show ?case by (simp add: merge_left_def)
next
  case (Cons c cs)
  have split: "length (merge_left (c # cs) valid)
      = length (merge_rows c valid) + length (merge_left cs valid)"
    by (simp add: merge_left_def)
  have ge: "length cs \<le> length (merge_left cs valid)"
    by (rule length_merge_left)
  have one: "1 \<le> length (merge_rows c valid)"
    by (simp add: length_merge_rows)
  have "(length (merge_left (c # cs) valid) = length (c # cs)) =
      (length (merge_rows c valid) = 1 \<and> length (merge_left cs valid) = length cs)"
    using split ge one by auto
  also have "length (merge_rows c valid) = 1 \<longleftrightarrow>
      length (filter (\<lambda>a. fips_of a = GEOID c) valid) \<le> 1"
    by (auto simp: length_merge_rows max_def)
  finally show ?case
    using Cons.IH by simp
qed

text \<open>
  Claim C2, as the code has it. No boundary is dropped: the output has at least as many rows as
  there are boundaries, and its boundaries are exactly the loaded ones. The output has as many
  rows as there are boundaries exactly when no boundary's identifier is the FIPS of two or
  more ALICE rows; then it has one row for each boundary, in the boundaries' order. An output
  row whose identifier is the FIPS of no ALICE row and is not selected by a name match of the
  second pass has every ALICE column missing.
\<close>

theorem boundary_coverage:
  "length shapefile \<le> length (create_county_choropleth_data shapefile alice_df) \<and>
   set (map boundary (create_county_choropleth_data shapefile alice_df))
     = set (map pad_geoid shapefile) \<and>
   ((length (create_county_choropleth_data shapefile alice_df) = length shapefile) =
      (\<forall>c \<in> set (map pad_geoid shapefile).
          length (filter (\<lambda>a. fips_of a = GEOID c) (valid_fips_alice alice_df)) \<le> 1)) \<and>
   ((\<forall>c \<in> set (map pad_geoid shapefile).
        length (filter (\<lambda>a. fips_of a = GEOID c) (valid_fips_alice alice_df)) \<le> 1) \<longrightarrow>
      map boundary (create_county_choropleth_data shapefile alice_df)
        = map pad_geoid shapefile) \<and>
   (\<forall>m \<in> set (create_county_choropleth_data shapefile alice_df).
      (\<forall>a \<in> set (valid_fips_alice alice_df). fips_of a \<noteq> GEOID (boundary m)) \<and>
      (\<forall>a \<in> set (missing_fips_alice alice_df).
          name_match (map pad_geoid shapefile) a \<noteq> Some (GEOID (boundary m)))
      \<longrightarrow> attrs m = missing_attrs)"
proof -
  let ?cs = "map pad_geoid shapefile"
  let ?valid = "valid_fips_alice alice_df"
  let ?ms = "merge_left ?cs ?valid"
  let ?out = "create_county_choropleth_data shapefile alice_df"
  have out: "?out = secondary_join ?cs ?ms (missing_fips_alice alice_df)"
    by (simp add: create_county_choropleth_data_def Let_def)
  have b: "map boundary ?out = map boundary ?ms"
    by (simp add: out map_boundary_secondary_join)
  have len: "length ?out = length ?ms"
    by (simp add: out length_secondary_join)
  then have 1: "length shapefile \<le> length ?out"
    using length_merge_left [of ?cs ?valid] by simp
  have 2: "set (map boundary ?out) = set ?cs"
    using set_boundary_merge_left [of ?cs ?valid] by (simp only: b)
  have 3: "(\<forall>c \<in> set ?cs. length (filter (\<lambda>a. fips_of a = GEOID c) ?valid) \<le> 1) \<longrightarrow>
      map boundary ?out = ?cs"
    by (simp only: b) (simp add: map_boundary_merge_left_one)
  have 5: "(length ?out = length shapefile) =
      (\<forall>c \<in> set ?cs. length (filter (\<lambda>a. fips_of a = GEOID c) ?valid) \<le> 1)"
    using length_merge_left_eq [of ?cs ?valid] len by simp
  have 4: "attrs m = missing_attrs"
    if "m \<in> set ?out"
      and "\<forall>a \<in> set ?valid. fips_of a \<noteq> GEOID (boundary m)"
      and "\<forall>a \<in> set (missing_fips_alice alice_df). name_match ?cs a \<noteq> Some (GEOID (boundary m))"
    for m
  proof -
    from that(1,3) have "m \<in> set ?ms"
      unfolding out by (rule secondary_join_unmatched)
    then show ?thesis using that(2) by (rule merge_left_unmatched)
  qed
  from 1 2 3 4 5 show ?thesis by blast
qed

theorem boundary_coverage_witness:
  "length (create_county_choropleth_data [sample_los_angeles, sample_harris]
        [sample_row (Some ''6037.0'') ''California'' ''Los Angeles'' 100]) = 2 \<and>
   map boundary
     (create_county_choropleth_data [sample_los_angeles, sample_harris]
        [sample_row (Some ''6037.0'') ''California'' ''Los Angeles'' 100])
     = map pad_geoid [sample_los_angeles, sample_harris] \<and>
   attrs (create_county_choropleth_data [sample_los_angeles, sample_harris]
        [sample_row (Some ''6037.0'') ''California'' ''Los Angeles'' 100] ! 1) = missing_attrs \<and>
   Households (attrs (create_county_choropleth_data [sample_los_angeles, sample_harris]
        [sample_row (Some ''6037.0'') ''California'' ''Los Angeles'' 100] ! 0)) = Fin 100"
proof -
  let ?alice = "[sample_row (Some ''6037.0'') ''California'' ''Los Angeles'' 100]"
  let ?shp = "[sample_los_angeles, sample_harris]"
  let ?out = "create_county_choropleth_data ?shp ?alice"
  have d: "\<forall>c \<in> set (map pad_geoid ?shp).
      length (filter (\<lambda>a. fips_of a = GEOID c) (valid_fips_alice ?alice)) \<le> 1"
    by code_simp
  have m: "?out ! 1 \<in> set ?out"
    by code_simp
  have v: "\<forall>a \<in> set (valid_fips_alice ?alice). fips_of a \<noteq> GEOID (boundary (?out ! 1))"
    by code_simp
  have n: "\<forall>a \<in> set (missing_fips_alice ?alice).
      name_match (map pad_geoid ?shp) a \<noteq> Some (GEOID (boundary (?out ! 1)))"
    by code_simp
  have h: "Households (attrs (?out ! 0)) = Fin 100"
    by code_simp
  from boundary_coverage [of ?shp ?alice] d m v n
  have "length ?out = length ?shp" and "map boundary ?out = map pad_geoid ?shp"
    and "attrs (?out ! 1) = missing_attrs"
    by blast+
  with h show ?thesis
    by simp
qed

text \<open>
  The claim as stated fails: two ALICE rows with the same FIPS give two output rows for the one
  boundary.
\<close>

theorem boundary_row_duplicated:
  "length (create_county_choropleth_data [sample_los_angeles]
       [sample_row (Some ''6037'') ''California'' ''Los Angeles'' 100,
        sample_row (Some ''6037.0'') ''California'' ''Los Angeles'' 200]) = 2 \<and>
   length [sample_los_angeles] = 1"
  by code_simp

subsection \<open>Several ALICE rows with one identifier\<close>

lemma boundary_merge_rows: "m \<in> set (merge_rows c valid) \<Longrightarrow> boundary m = c"
  using map_boundary_merge_rows [of c valid]
  by (metis in_set_replicate image_eqI set_map)

lemma filter_merge_rows_other:
  "GEOID c' \<noteq> g \<Longrightarrow> filter (\<lambda>m. GEOID (boundary m) = g) (merge_rows c' valid) = []"
  by (auto simp: filter_empty_conv dest: boundary_merge_rows)

lemma filter_merge_rows_same:
  "filter (\<lambda>m. GEOID (boundary m) = GEOID c) (merge_rows c valid) = merge_rows c valid"
  by (auto simp: filter_id_conv dest: boundary_merge_rows)

lemma filter_merge_left:
  "distinct (map GEOID cs) \<Longrightarrow> c \<in> set cs \<Longrightarrow>
   filter (\<lambda>m. GEOID (boundary m) = GEOID c) (merge_left cs valid) = merge_rows c valid"
  unfolding merge_left_def
proof (induction cs)
  case Nil
  then show ?case by simp
next
  case (Cons c' cs)
  show ?case
  proof (cases "c' = c")
    case True
    from Cons.prems(1) True have "GEOID c \<notin> set (map GEOID cs)" by simp
    then have "\<forall>x \<in> set cs. GEOID x \<noteq> GEOID c"
      unfolding set_map by (metis imageI)
    then have "filter (\<lambda>m. GEOID (boundary m) = GEOID c)
        (concat (map (\<lambda>c. merge_rows c valid) cs)) = []"
      by (induction cs) (simp_all add: filter_merge_rows_other)
    with True show ?thesis by (simp add: filter_merge_rows_same)
  next
    case False
    with Cons.prems have "c \<in> set cs" and "GEOID c' \<noteq> GEOID c" and "distinct (map GEOID cs)"
      by auto
    with Cons.IH show ?thesis by (simp add: filter_merge_rows_other)
  qed
qed

lemma filter_apply_name_match:
  "name_match cs a \<noteq> Some g \<Longrightarrow>
   filter (\<lambda>m. GEOID (boundary m) = g) (apply_name_match cs ms a)
     = filter (\<lambda>m. GEOID (boundary m) = g) ms"
proof (cases "name_match cs a")
  case None
  then show ?thesis by (simp add: apply_name_match_def)
next
  case (Some geoid)
  assume "name_match cs a \<noteq> Some g"
  with Some have ne: "geoid \<noteq> g" by simp
  have "filter (\<lambda>m. GEOID (boundary m) = g)
          (map (\<lambda>m. if GEOID (boundary m) = geoid then update_row a m else m) ms)
        = filter (\<lambda>m. GEOID (boundary m) = g) ms"
    using ne by (induction ms) (auto simp: update_row_boundary)
  with Some show ?thesis by (simp add: apply_name_match_def)
qed

lemma filter_secondary_join:
  "\<forall>a \<in> set missing. name_match cs a \<noteq> Some g \<Longrightarrow>
   filter (\<lambda>m. GEOID (boundary m) = g) (secondary_join cs ms missing)
     = filter (\<lambda>m. GEOID (boundary m) = g) ms"
  unfolding secondary_join_def
  by (induction missing arbitrary: ms) (simp_all add: filter_apply_name_match)

text \<open>
  Claim C6, as the code has it. When several ALICE rows have the five-character FIPS of a
  boundary (the boundaries' identifiers being distinct, and no name match of the second pass
  selecting that boundary), the output holds one row of that boundary for each of them, in
  their input order, each with its own values: none is overwritten by a later one.
\<close>

theorem duplicate_ids_all_kept:
  assumes "distinct (map GEOID (map pad_geoid shapefile))"
    and "c \<in> set (map pad_geoid shapefile)"
    and "filter (\<lambda>a. fips_of a = GEOID c) (valid_fips_alice alice_df) \<noteq> []"
    and "\<forall>a \<in> set (missing_fips_alice alice_df).
           name_match (map pad_geoid shapefile) a \<noteq> Some (GEOID c)"
  shows "filter (\<lambda>m. GEOID (boundary m) = GEOID c)
           (create_county_choropleth_data shapefile alice_df)
         = map (\<lambda>a. \<lparr>boundary = c, attrs = a\<rparr>)
             (filter (\<lambda>a. fips_of a = GEOID c) (valid_fips_alice alice_df))"
proof -
  let ?cs = "map pad_geoid shapefile"
  let ?valid = "valid_fips_alice alice_df"
  have "filter (\<lambda>m. GEOID (boundary m) = GEOID c)
          (create_county_choropleth_data shapefile alice_df)
        = filter (\<lambda>m. GEOID (boundary m) = GEOID c) (merge_left ?cs ?valid)"
    using assms(4) by (simp add: create_county_choropleth_data_def Let_def filter_secondary_join)
  also have "\<dots> = merge_rows c ?valid"
    using assms(1,2) by (rule filter_merge_left)
  also have "\<dots> = map (\<lambda>a. \<lparr>boundary = c, attrs = a\<rparr>)
      (filter (\<lambda>a. fips_of a = GEOID c) ?valid)"
    using assms(3) by (simp add: merge_rows_def)
  finally show ?thesis .
qed

theorem duplicate_ids_all_kept_witness:
  "map (\<lambda>m. Households (attrs m))
     (filter (\<lambda>m. GEOID (boundary m) = GEOID sample_harris)
        (create_county_choropleth_data [sample_los_angeles, sample_harris]
           [sample_row (Some ''48201'') ''Texas'' ''Harris'' 100,
            sample_row (Some ''6037'') ''California'' ''Los Angeles'' 300,
            sample_row (Some ''48201.0'') ''Texas'' ''Harris'' 200]))
   = [Fin 100, Fin 200]"
proof -
  let ?shp = "[sample_los_angeles, sample_harris]"
  let ?alice = "[sample_row (Some ''48201'') ''Texas'' ''Harris'' 100,
            sample_row (Some ''6037'') ''California'' ''Los Angeles'' 300,
            sample_row (Some ''48201.0'') ''Texas'' ''Harris'' 200]"
  have 1: "distinct (map GEOID (map pad_geoid ?shp))"
    by code_simp
  have 2: "sample_harris \<in> set (map pad_geoid ?shp)"
    by code_simp
  have 3: "filter (\<lambda>a. fips_of a = GEOID sample_harris) (valid_fips_alice ?alice) \<noteq> []"
    by code_simp
  have 4: "\<forall>a \<in> set (missing_fips_alice ?alice).
      name_match (map pad_geoid ?shp) a \<noteq> Some (GEOID sample_harris)"
    by code_simp
  have 5: "map (\<lambda>m. Households (attrs m)) (map (\<lambda>a. \<lparr>boundary = sample_harris, attrs = a\<rparr>)
      (filter (\<lambda>a. fips_of a = GEOID sample_harris) (valid_fips_alice ?alice)))
      = [Fin 100, Fin 200]"
    by code_simp
  from duplicate_ids_all_kept [OF 1 2 3 4] 5 show ?thesis
    by simp
qed

text \<open>
  The claim as stated fails: the two rows of one identifier give two output rows, and the first
  keeps the first row's values.
\<close>

theorem duplicate_ids_not_last_write_wins:
  "map (\<lambda>m. Households (attrs m))
     (create_county_choropleth_data [sample_harris]
        [sample_row (Some ''48201'') ''Texas'' ''Harris'' 100,
         sample_row (Some ''48201.0'') ''Texas'' ''Harris'' 200])
   = [Fin 100, Fin 200]"
  by code_simp

subsection \<open>The second pass\<close>

text \<open>
  Claim C5, as the code has it. When an ALICE row without a five-character FIPS has exactly
  one boundary candidate, the pass changes no boundary column of any row and no row of another
  identifier. On every row of the candidate's identifier, whether or not the merge had found a
  partner for it, each of the five metric columns takes the ALICE row's value when that value
  is not missing and keeps its own otherwise, \<open>State\<close> and \<open>County\<close> take the ALICE
  row's values, and the other ALICE columns stay.
\<close>

theorem name_match_update_frame:
  assumes "name_match counties_gdf a = Some g"
  shows "map boundary (apply_name_match counties_gdf merged_gdf a) = map boundary merged_gdf \<and>
    (\<forall>i < length merged_gdf.
       (GEOID (boundary (merged_gdf ! i)) \<noteq> g \<longrightarrow>
          apply_name_match counties_gdf merged_gdf a ! i = merged_gdf ! i) \<and>
       (GEOID (boundary (merged_gdf ! i)) = g \<longrightarrow>
          attrs (apply_name_match counties_gdf merged_gdf a ! i)
            = (attrs (merged_gdf ! i))
                \<lparr>Households := fill (Households a) (Households (attrs (merged_gdf ! i))),
                 Poverty_Percentage :=
                   fill (Poverty_Percentage a) (Poverty_Percentage (attrs (merged_gdf ! i))),
                 ALICE_Percentage :=
                   fill (ALICE_Percentage a) (ALICE_Percentage (attrs (merged_gdf ! i))),
                 Below_ALICE_Threshold_Percentage :=
                   fill (Below_ALICE_Threshold_Percentage a)
                     (Below_ALICE_Threshold_Percentage (attrs (merged_gdf ! i))),
                 Above_ALICE_Percentage :=
                   fill (Above_ALICE_Percentage a)
                     (Above_ALICE_Percentage (attrs (merged_gdf ! i))),
                 State := State a, County := County a\<rparr> \<and>
          GEO_id2 (attrs (apply_name_match counties_gdf merged_gdf a ! i))
            = GEO_id2 (attrs (merged_gdf ! i)) \<and>
          GEO_display_label (attrs (apply_name_match counties_gdf merged_gdf a ! i))
            = GEO_display_label (attrs (merged_gdf ! i)) \<and>
          State_Abbr_col (attrs (apply_name_match counties_gdf merged_gdf a ! i))
            = State_Abbr_col (attrs (merged_gdf ! i))))"
  using assms
  by (simp add: map_boundary_apply_name_match) (simp add: apply_name_match_def update_row_def)


theorem name_match_update_frame_witness:
  "name_match [sample_harris] (sample_row (Some ''482010'') ''Texas'' ''HARRIS'' 200)
     = Some ''48201'' \<and>
   map boundary
     (apply_name_match [sample_harris]
        (merge_left [sample_harris] [sample_row (Some ''48201'') ''Texas'' ''Harris'' 100])
        (sample_row (Some ''482010'') ''Texas'' ''HARRIS'' 200))
     = [sample_harris] \<and>
   Households (attrs
     (apply_name_match [sample_harris]
        (merge_left [sample_harris] [sample_row (Some ''48201'') ''Texas'' ''Harris'' 100])
        (sample_row (Some ''482010'') ''Texas'' ''HARRIS'' 200) ! 0)) = Fin 200 \<and>
   GEO_id2 (attrs
     (apply_name_match [sample_harris]
        (merge_left [sample_harris] [sample_row (Some ''48201'') ''Texas'' ''Harris'' 100])
        (sample_row (Some ''482010'') ''Texas'' ''HARRIS'' 200) ! 0)) = Some ''48201''"
proof -
  let ?a = "sample_row (Some ''482010'') ''Texas'' ''HARRIS'' 200"
  let ?ms = "merge_left [sample_harris] [sample_row (Some ''48201'') ''Texas'' ''Harris'' 100]"
  have h: "name_match [sample_harris] ?a = Some ''48201''"
    by code_simp
  have l: "0 < length ?ms"
    by code_simp
  have g: "GEOID (boundary (?ms ! 0)) = ''48201''"
    by code_simp
  have b: "map boundary ?ms = [sample_harris]"
    by code_simp
  have f: "fill (Households ?a) (Households (attrs (?ms ! 0))) = Fin 200"
    by code_simp
  have i: "GEO_id2 (attrs (?ms ! 0)) = Some ''48201''"
    by code_simp
  from name_match_update_frame [OF h, of ?ms] l g
  have "attrs (apply_name_match [sample_harris] ?ms ?a ! 0)
      = (attrs (?ms ! 0))
          \<lparr>Households := fill (Households ?a) (Households (attrs (?ms ! 0))),
           Poverty_Percentage :=
             fill (Poverty_Percentage ?a) (Poverty_Percentage (attrs (?ms ! 0))),
           ALICE_Percentage := fill (ALICE_Percentage ?a) (ALICE_Percentage (attrs (?ms ! 0))),
           Below_ALICE_Threshold_Percentage :=
             fill (Below_ALICE_Threshold_Percentage ?a)
               (Below_ALICE_Threshold_Percentage (attrs (?ms ! 0))),
           Above_ALICE_Percentage :=
             fill (Above_ALICE_Percentage ?a) (Above_ALICE_Percentage (attrs (?ms ! 0))),
           State := State ?a, County := County ?a\<rparr>"
    and "GEO_id2 (attrs (apply_name_match [sample_harris] ?ms ?a ! 0))
      = GEO_id2 (attrs (?ms ! 0))"
    and "map boundary (apply_name_match [sample_harris] ?ms ?a) = map boundary ?ms"
    by blast+
  with h b f i show ?thesis
    by simp
qed

text \<open>
  The claim as stated fails: a row that the merge had matched by its FIPS (100 households) is
  overwritten by the name match of a later row (200 households).
\<close>

theorem exact_match_overwritten_by_name_match:
  "map (\<lambda>m. Households (attrs m))
     (merge_left (map pad_geoid [sample_harris])
        (valid_fips_alice
           [sample_row (Some ''48201'') ''Texas'' ''Harris'' 100,
            sample_row (Some ''482010'') ''Texas'' ''HARRIS'' 200]))
   = [Fin 100] \<and>
   map (\<lambda>m. Households (attrs m))
     (create_county_choropleth_data [sample_harris]
        [sample_row (Some ''48201'') ''Texas'' ''Harris'' 100,
         sample_row (Some ''482010'') ''Texas'' ''HARRIS'' 200])
   = [Fin 200]"
  by code_simp

subsection \<open>The state table\<close>

text \<open>
  An ALICE row whose state is blank or not a key of the table is skipped by the second pass: the
  merged frame stays as it is, and nothing is raised.
\<close>

lemma unmapped_state_skipped:
  "State_Abbr a = None \<Longrightarrow> apply_name_match counties_gdf merged_gdf a = merged_gdf"
  by (simp add: apply_name_match_def name_match_def split: option.splits)

lemma state_mapping_keys_distinct: "distinct (map fst state_mapping)"
  by code_simp

text \<open>
  Claim C7, evaluated on the code. The table has fifty keys and none for the federal
  district, so an ALICE row of the District of Columbia without a usable FIPS is skipped by
  the second pass even though the boundary set has exactly one candidate for it.
\<close>

theorem state_mapping_lacks_district:
  "length state_mapping = 50 \<and>
   map_of state_mapping ''District of Columbia'' = None \<and>
   map (attrs :: unit merged_row \<Rightarrow> alice_row)
     (create_county_choropleth_data
        [\<lparr>GEOID = ''11001'', NAME = ''District of Columbia'', STUSPS = ''DC'', geometry = ()\<rparr>]
        [\<lparr>State = Some ''District of Columbia'', State_Abbr_col = Some ''DC'',
          County = Some ''District of Columbia'', GEO_id2 = Some ''110010'',
          GEO_display_label = None, Households = Fin 300000, Poverty_Percentage = Fin 14,
          ALICE_Percentage = Fin 20, Below_ALICE_Threshold_Percentage = Fin 34,
          Above_ALICE_Percentage = Fin 66\<rparr>])
   = [missing_attrs]"
  by code_simp

subsection \<open>Derived percentages\<close>

lemma isna_percentage: "isna (percentage part whole) = quotient_missing part whole"
  by (cases part; cases whole) (auto simp: percentage_def quotient_missing_def)


lemma household_cols_expected: "set household_cols \<subseteq> set expected_cols"
  by (simp add: household_cols_def expected_cols_def)

lemma clean_county_data_rows:
  assumes ok: "clean_county_data sheet state_name today = Inr out"
    and cols: "set household_cols \<subseteq> set (columns sheet)"
    and r: "r \<in> set (rows out)"
  shows "\<exists>r0. (\<forall>c \<in> set household_cols. is_num (r0 c)) \<and>
     r = (add_calculated_fields r0)
           (''Data_Source_File'' := Str state_name, ''Processing_Date'' := Str today)"
proof -
  let ?df1 = "dropna_all sheet"
  let ?existing = "filter (\<lambda>c. c \<in> set (columns ?df1)) expected_cols"
  let ?df2 = "select_columns ?existing ?df1"
  have "set household_cols \<subseteq> set (columns ?df2)"
    using cols household_cols_expected by (auto simp: select_columns_def dropna_all_def)
  then have present: "list_all (\<lambda>c. c \<in> set (columns ?df2)) household_cols"
    by (auto simp: list_all_iff)
  with ok have num: "list_all (numeric_column ?df2) household_cols"
    and out: "out = add_metadata state_name today
        \<lparr>columns = columns ?df2 @ calculated_cols,
         rows = map add_calculated_fields (rows ?df2)\<rparr>"
    by (auto simp: clean_county_data_def Let_def split: if_splits)
  from r out obtain r0 where r0: "r0 \<in> set (rows ?df2)"
    and eq: "r = (add_calculated_fields r0)
        (''Data_Source_File'' := Str state_name, ''Processing_Date'' := Str today)"
    by (auto simp: add_metadata_def)
  from num r0 have "\<forall>c \<in> set household_cols. is_num (r0 c)"
    by (auto simp: list_all_iff numeric_column_def)
  with eq show ?thesis by blast
qed

lemma numeric_kept:
  assumes "list_all (numeric_column sheet) household_cols"
  shows "list_all (numeric_column
      (select_columns cols (dropna_all sheet))) household_cols"
  using assms
  by (auto simp: list_all_iff numeric_column_def select_columns_def dropna_all_def)

lemma clean_county_data_returns:
  assumes "list_all (numeric_column sheet) household_cols"
  shows "\<exists>out. clean_county_data sheet state_name today = Inr out"
  using numeric_kept [OF assms] by (simp add: clean_county_data_def Let_def)

text \<open>
  Claim C1, as the code has it, for sheets whose four household columns are numeric. The
  computation returns a frame and raises nothing. In every row of the result a derived
  percentage is missing exactly when a term of its numerator or the household count is
  missing, or the numerator and the household count are both zero, or both are infinite. With
  a household count of zero and a positive numerator the percentage is the positive infinity,
  which is not a missing value.
\<close>

theorem percentage_missing_iff:
  "(list_all (numeric_column sheet) household_cols \<longrightarrow>
      (\<exists>out. clean_county_data sheet state_name today = Inr out)) \<and>
   (clean_county_data sheet state_name today = Inr out \<and>
    set household_cols \<subseteq> set (columns sheet) \<and> r \<in> set (rows out) \<longrightarrow>
      (cell_isna (r ''Poverty_Percentage'') \<longleftrightarrow>
         quotient_missing (the_num (r ''Poverty Households'')) (the_num (r ''Households''))) \<and>
      (cell_isna (r ''ALICE_Percentage'') \<longleftrightarrow>
         quotient_missing (the_num (r ''ALICE Households'')) (the_num (r ''Households''))) \<and>
      (cell_isna (r ''Above_ALICE_Percentage'') \<longleftrightarrow>
         quotient_missing (the_num (r ''Above ALICE Households'')) (the_num (r ''Households''))) \<and>
      (cell_isna (r ''Below_ALICE_Threshold_Percentage'') \<longleftrightarrow>
         quotient_missing
           (fl_add (the_num (r ''Poverty Households'')) (the_num (r ''ALICE Households'')))
           (the_num (r ''Households''))) \<and>
      (the_num (r ''Households'') = Fin 0 \<and> the_num (r ''Poverty Households'') = Fin a \<and> 0 < a
         \<longrightarrow> r ''Poverty_Percentage'' = Num PInf))"
proof (intro conjI impI)
  assume "list_all (numeric_column sheet) household_cols"
  then show "\<exists>out. clean_county_data sheet state_name today = Inr out"
    by (rule clean_county_data_returns)
next
  assume a: "clean_county_data sheet state_name today = Inr out \<and>
    set household_cols \<subseteq> set (columns sheet) \<and> r \<in> set (rows out)"
  then obtain r0 where
    eq: "r = (add_calculated_fields r0)
        (''Data_Source_File'' := Str state_name, ''Processing_Date'' := Str today)"
    using clean_county_data_rows [of sheet state_name today out r] by blast
  have pp: "r ''Poverty_Percentage''
      = Num (percentage (the_num (r ''Poverty Households'')) (the_num (r ''Households'')))"
    and ap: "r ''ALICE_Percentage''
      = Num (percentage (the_num (r ''ALICE Households'')) (the_num (r ''Households'')))"
    and bp: "r ''Above_ALICE_Percentage''
      = Num (percentage (the_num (r ''Above ALICE Households'')) (the_num (r ''Households'')))"
    and tp: "r ''Below_ALICE_Threshold_Percentage''
      = Num (percentage
          (fl_add (the_num (r ''Poverty Households'')) (the_num (r ''ALICE Households'')))
          (the_num (r ''Households'')))"
    by (simp_all add: eq add_calculated_fields_def Let_def)
  show "cell_isna (r ''Poverty_Percentage'') \<longleftrightarrow>
      quotient_missing (the_num (r ''Poverty Households'')) (the_num (r ''Households''))"
    by (simp add: pp isna_percentage)
  show "cell_isna (r ''ALICE_Percentage'') \<longleftrightarrow>
      quotient_missing (the_num (r ''ALICE Households'')) (the_num (r ''Households''))"
    by (simp add: ap isna_percentage)
  show "cell_isna (r ''Above_ALICE_Percentage'') \<longleftrightarrow>
      quotient_missing (the_num (r ''Above ALICE Households'')) (the_num (r ''Households''))"
    by (simp add: bp isna_percentage)
  show "cell_isna (r ''Below_ALICE_Threshold_Percentage'') \<longleftrightarrow>
      quotient_missing
        (fl_add (the_num (r ''Poverty Households'')) (the_num (r ''ALICE Households'')))
        (the_num (r ''Households''))"
    by (simp add: tp isna_percentage)
  assume "the_num (r ''Households'') = Fin 0 \<and> the_num (r ''Poverty Households'') = Fin a \<and> 0 < a"
  then show "r ''Poverty_Percentage'' = Num PInf"
    by (simp add: pp percentage_def)
qed



theorem percentage_missing_iff_witness:
  "the_num ((rows (projr (clean_county_data
       (sample_sheet [(Fin 1000, Fin 150, Fin 300, Fin 550), (Fin 0, Fin 5, Fin 0, Fin 0)])
       ''Texas'' ''2025-01-01'')) ! 1) ''Households'') = Fin 0 \<and>
   (rows (projr (clean_county_data
       (sample_sheet [(Fin 1000, Fin 150, Fin 300, Fin 550), (Fin 0, Fin 5, Fin 0, Fin 0)])
       ''Texas'' ''2025-01-01'')) ! 1) ''Poverty_Percentage'' = Num PInf \<and>
   cell_isna ((rows (projr (clean_county_data
       (sample_sheet [(Fin 1000, Fin 150, Fin 300, Fin 550), (Fin 0, Fin 5, Fin 0, Fin 0)])
       ''Texas'' ''2025-01-01'')) ! 1) ''ALICE_Percentage'') \<and>
   \<not> cell_isna ((rows (projr (clean_county_data
       (sample_sheet [(Fin 1000, Fin 150, Fin 300, Fin 550), (Fin 0, Fin 5, Fin 0, Fin 0)])
       ''Texas'' ''2025-01-01'')) ! 0) ''Poverty_Percentage'')"
proof -
  let ?sheet = "sample_sheet [(Fin 1000, Fin 150, Fin 300, Fin 550), (Fin 0, Fin 5, Fin 0, Fin 0)]"
  let ?res = "clean_county_data ?sheet ''Texas'' ''2025-01-01''"
  let ?out = "projr ?res"
  note main = percentage_missing_iff [of ?sheet "''Texas''" "''2025-01-01''" ?out]
  have num: "list_all (numeric_column ?sheet) household_cols"
    by code_simp
  with main [of "rows ?out ! 0" 0] have "\<exists>out. ?res = Inr out"
    by blast
  then have ok: "?res = Inr ?out"
    by auto
  have cols: "set household_cols \<subseteq> set (columns ?sheet)"
    by code_simp
  have len: "length (rows ?out) = 2"
    by code_simp
  then have r0: "rows ?out ! 0 \<in> set (rows ?out)" and r1: "rows ?out ! 1 \<in> set (rows ?out)"
    by simp_all
  have h1: "the_num ((rows ?out ! 1) ''Households'') = Fin 0"
    and p1: "the_num ((rows ?out ! 1) ''Poverty Households'') = Fin 5"
    and a1: "the_num ((rows ?out ! 1) ''ALICE Households'') = Fin 0"
    and h0: "the_num ((rows ?out ! 0) ''Households'') = Fin 1000"
    and p0: "the_num ((rows ?out ! 0) ''Poverty Households'') = Fin 150"
    by code_simp+
  from main [of "rows ?out ! 1" 5] ok cols r1 h1 p1 a1
  have "(rows ?out ! 1) ''Poverty_Percentage'' = Num PInf"
    and "cell_isna ((rows ?out ! 1) ''ALICE_Percentage'')"
    by (simp_all add: quotient_missing_def)
  moreover from main [of "rows ?out ! 0" 5] ok cols r0 h0 p0
  have "\<not> cell_isna ((rows ?out ! 0) ''Poverty_Percentage'')"
    by (simp add: quotient_missing_def)
  ultimately show ?thesis
    using h1 by simp
qed

text \<open>
  The claim as stated fails: with zero households and five poverty households the poverty
  percentage is the positive infinity, which \<^verbatim>\<open>pd.isna\<close> does not take as missing.
\<close>

theorem zero_households_percentage_not_null:
  "\<not> isl (clean_county_data (sample_sheet [(Fin 0, Fin 5, Fin 0, Fin 0)])
       ''Texas'' ''2025-01-01'') \<and>
   series (projr (clean_county_data (sample_sheet [(Fin 0, Fin 5, Fin 0, Fin 0)])
       ''Texas'' ''2025-01-01'')) ''Households'' = [Num (Fin 0)] \<and>
   series (projr (clean_county_data (sample_sheet [(Fin 0, Fin 5, Fin 0, Fin 0)])
       ''Texas'' ''2025-01-01'')) ''Poverty_Percentage'' = [Num PInf] \<and>
   \<not> cell_isna (Num PInf)"
  by code_simp


subsection \<open>Rounding of the derived metrics\<close>









subsection \<open>Means over the values that are present\<close>










text \<open>
  A metric whose column the master frame does not have at all is reported as 0 by
  \<^verbatim>\<open>create_summary_statistics\<close> (the \<^verbatim>\<open>else 0\<close> of lines 151 to 153).
\<close>

lemma absent_column_reported_as_zero:
  "''ALICE_Percentage'' \<notin> set (columns sample_master) \<and>
   create_summary_statistics sample_master = Some (Inr sample_master_stats) \<and>
   avg_alice_percentage_master sample_master_stats = Fin 0"
  by code_simp

subsection \<open>Mock demographics\<close>

text \<open>
  Claim C10. For a fixed ALICE table, two invocations of \<^verbatim>\<open>_create_mock_demographics\<close>
  give the same result (the records or the exception, and the state the generator is left in),
  whatever states the global generator had when they started: the state is set from the
  constant 42 before any number is drawn.
\<close>

theorem mock_demographics_deterministic:
  "create_mock_demographics gen g1 alice_df = create_mock_demographics gen g2 alice_df"
  by (simp add: create_mock_demographics_def)

text \<open>
  The model does read the generator: with a toy generator that counts its draws, the one row
  with a five-character FIPS takes twelve draws from state 42, and the other row none.
\<close>

lemma mock_demographics_sample:
  "create_mock_demographics
     \<lparr>seed = (\<lambda>n. n), normal = (\<lambda>loc scale g. (loc + scale * of_nat g / 100, Suc g))\<rparr> 7
     [sample_row (Some ''48201'') ''Texas'' ''Harris'' 1000,
      sample_row (Some ''482010'') ''Texas'' ''Harris'' 1000]
   = create_mock_demographics
     \<lparr>seed = (\<lambda>n. n), normal = (\<lambda>loc scale g. (loc + scale * of_nat g / 100, Suc g))\<rparr> 0
     [sample_row (Some ''48201'') ''Texas'' ''Harris'' 1000,
      sample_row (Some ''482010'') ''Texas'' ''Harris'' 1000] \<and>
   map_sum id (\<lambda>(ms, g). (map mock_Total_Population ms, map Unemployment_Rate ms, g))
     (create_mock_demographics
       \<lparr>seed = (\<lambda>n. n), normal = (\<lambda>loc scale g. (loc + scale * of_nat g / 100, Suc g))\<rparr> 7
       [sample_row (Some ''48201'') ''Texas'' ''Harris'' 1000,
        sample_row (Some ''482010'') ''Texas'' ''Harris'' 1000])
   = Inr ([2426], [51 / 10], 54)"
  by code_simp

end
